theory Spec2Isabelle
  imports Complex_Main
begin

section \<open>Decoded JSON values and the JavaScript operations the code applies to them\<close>

text \<open>
  A value produced by \<^verbatim>\<open>JSON.parse\<close>. Numbers are modelled as exact rationals (no
  rounding, no NaN or Infinity: \<^verbatim>\<open>JSON.parse\<close> yields neither for a number literal in
  range). An object is the list of its own properties in insertion order.
\<close>

datatype json =
    JNull
  | JBool bool
  | JNum rat
  | JStr string
  | JArr "json list"
  | JObj "(string \<times> json) list"

text \<open>Property read \<^verbatim>\<open>v.k\<close> for the keys the validator uses; \<open>None\<close> is \<^verbatim>\<open>undefined\<close>.
  None of those keys is a property of an array.\<close>

fun get_prop :: "json \<Rightarrow> string \<Rightarrow> json option" where
  "get_prop (JObj kvs) k = map_of kvs k"
| "get_prop _ k = None"

text \<open>Property write \<^verbatim>\<open>v.k = x\<close>: an existing key keeps its place, a new key is appended.\<close>

fun obj_update :: "string \<Rightarrow> json \<Rightarrow> (string \<times> json) list \<Rightarrow> (string \<times> json) list" where
  "obj_update k x [] = [(k, x)]"
| "obj_update k x (p # ps) = (if fst p = k then (k, x) # ps else p # obj_update k x ps)"

fun set_prop :: "json \<Rightarrow> string \<Rightarrow> json \<Rightarrow> json" where
  "set_prop (JObj kvs) k x = JObj (obj_update k x kvs)"
| "set_prop v k x = v"

text \<open>JavaScript truthiness, as tested by \<^verbatim>\<open>!v\<close>.\<close>

fun truthy :: "json \<Rightarrow> bool" where
  "truthy JNull = False"
| "truthy (JBool b) = b"
| "truthy (JNum r) = (r \<noteq> 0)"
| "truthy (JStr s) = (s \<noteq> [])"
| "truthy (JArr xs) = True"
| "truthy (JObj kvs) = True"

fun truthy_opt :: "json option \<Rightarrow> bool" where
  "truthy_opt None = False"
| "truthy_opt (Some v) = truthy v"

text \<open>\<^verbatim>\<open>typeof v === 'object'\<close>: true of null, arrays and objects.\<close>

fun typeof_object :: "json \<Rightarrow> bool" where
  "typeof_object JNull = True"
| "typeof_object (JArr xs) = True"
| "typeof_object (JObj kvs) = True"
| "typeof_object _ = False"

fun typeof_object_opt :: "json option \<Rightarrow> bool" where
  "typeof_object_opt None = False"
| "typeof_object_opt (Some v) = typeof_object v"

fun typeof_number :: "json option \<Rightarrow> bool" where
  "typeof_number (Some (JNum r)) = True"
| "typeof_number _ = False"

text \<open>Chained read \<^verbatim>\<open>v.k\<close> where \<open>v\<close> is itself the result of a read. The code reaches
  it only with \<open>v\<close> an object or array (on \<^verbatim>\<open>undefined\<close> JavaScript would throw).\<close>

fun get_prop_opt :: "json option \<Rightarrow> string \<Rightarrow> json option" where
  "get_prop_opt None k = None"
| "get_prop_opt (Some v) k = get_prop v k"

fun isArray :: "json option \<Rightarrow> bool" where
  "isArray (Some (JArr xs)) = True"
| "isArray _ = False"

text \<open>A JSON object in the strict sense: neither null nor an array.\<close>

fun is_object :: "json \<Rightarrow> bool" where
  "is_object (JObj kvs) = True"
| "is_object _ = False"

text \<open>Template-literal rendering \<^verbatim>\<open>`${i}`\<close> of a non-negative integer: its decimal digits.\<close>

definition digit_char :: "nat \<Rightarrow> char" where
  "digit_char d = ''0123456789'' ! d"

fun string_of_nat :: "nat \<Rightarrow> string" where
  "string_of_nat n =
     (if n < 10 then [digit_char n] else string_of_nat (n div 10) @ [digit_char (n mod 10)])"

declare string_of_nat.simps [simp del]

text \<open>The double-quote character, for the messages that contain one.\<close>

definition dquote :: string where
  "dquote = [CHR 0x22]"

section \<open>Errors (types.ts, in the sources the second part of utils/validation.ts)\<close>

datatype ProfilerErrorType =
    INVALID_JSON
  | INVALID_PROFILE_FORMAT
  | FILE_READ_ERROR
  | MISSING_PROFILE_DATA
  | COMPARISON_ERROR

record ProfilerError =
  error_type :: ProfilerErrorType
  message :: string
  details :: "string option"

section \<open>validateProfileData (utils/validation.ts)\<close>

text \<open>
  The per-shard loop of lines 68-91: the first offending shard, at index \<open>i\<close>, ends the
  validation with an error; \<open>None\<close> means the loop ran to its end.
\<close>

fun validateShards :: "json list \<Rightarrow> nat \<Rightarrow> ProfilerError option" where
  "validateShards [] i = None"
| "validateShards (shard # rest) i =
     (if \<not> truthy shard \<or> \<not> typeof_object shard then
        Some \<lparr>error_type = INVALID_PROFILE_FORMAT,
              message = ''Invalid shard at index '' @ string_of_nat i,
              details = Some ''Each shard must be an object''\<rparr>
      else if \<not> isArray (get_prop shard ''searches'') then
        Some \<lparr>error_type = INVALID_PROFILE_FORMAT,
              message = ''Invalid shard at index '' @ string_of_nat i,
              details = Some (''Each shard must have a '' @ dquote @ ''searches'' @ dquote @ '' array'')\<rparr>
      else validateShards rest (Suc i))"

text \<open>
  Lines 93-113: the defaults written into the document. \<open>n\<close> is
  \<^verbatim>\<open>data.profile.shards.length\<close>.
\<close>

definition fillDefaults :: "json \<Rightarrow> nat \<Rightarrow> json" where
  "fillDefaults data n =
     (let d1 = (if \<not> typeof_number (get_prop data ''took'')
                then set_prop data ''took'' (JNum 0) else data);
          d2 = (if \<not> truthy_opt (get_prop d1 ''_shards'')
                then set_prop d1 ''_shards''
                       (JObj [(''total'', JNum (of_nat n)), (''successful'', JNum (of_nat n)),
                              (''skipped'', JNum 0), (''failed'', JNum 0)])
                else d1);
          d3 = (if \<not> truthy_opt (get_prop d2 ''hits'')
                then set_prop d2 ''hits''
                       (JObj [(''total'', JNum 0), (''max_score'', JNull), (''hits'', JArr [])])
                else d2)
      in d3)"

text \<open>
  The validator. \<open>Inl e\<close> is \<^verbatim>\<open>{ isValid: false, error: e }\<close>; \<open>Inr d\<close> is
  \<^verbatim>\<open>{ isValid: true }\<close> together with the document as the in-place default fill left it
  (no check that fails has written anything before it returns).
\<close>

definition validateProfileData :: "json \<Rightarrow> ProfilerError + json" where
  "validateProfileData data =
     (if \<not> truthy data \<or> \<not> typeof_object data then
        Inl \<lparr>error_type = INVALID_PROFILE_FORMAT,
             message = ''Invalid profile data'',
             details = Some ''Profile data must be an object''\<rparr>
      else if \<not> truthy_opt (get_prop data ''profile'')
            \<or> \<not> typeof_object_opt (get_prop data ''profile'') then
        Inl \<lparr>error_type = MISSING_PROFILE_DATA,
             message = ''Missing required field: profile'',
             details = Some (''The '' @ dquote @ ''profile'' @ dquote
                              @ '' field must be an object containing profiling information'')\<rparr>
      else
        (case get_prop_opt (get_prop data ''profile'') ''shards'' of
           Some (JArr shards) \<Rightarrow>
             if length shards = 0 then
               Inl \<lparr>error_type = MISSING_PROFILE_DATA,
                    message = ''No shard data found'',
                    details = Some ''profile.shards array must contain at least one shard profile''\<rparr>
             else
               (case validateShards shards 0 of
                  Some e \<Rightarrow> Inl e
                | None \<Rightarrow> Inr (fillDefaults data (length shards)))
         | _ \<Rightarrow>
             Inl \<lparr>error_type = INVALID_PROFILE_FORMAT,
                  message = ''Invalid profile.shards structure'',
                  details = Some ''profile.shards must be an array of shard profiles''\<rparr>))"

definition isValid :: "ProfilerError + json \<Rightarrow> bool" where
  "isValid r = (case r of Inl e \<Rightarrow> False | Inr d \<Rightarrow> True)"

definition failure_type :: "ProfilerError + 'a \<Rightarrow> ProfilerErrorType option" where
  "failure_type r = (case r of Inl e \<Rightarrow> Some (error_type e) | Inr d \<Rightarrow> None)"


section \<open>parseProfileJSON and serializeProfileData (utils/parsing.ts)\<close>




section \<open>getBarColor (constants.ts, in the sources unnamed/part_000)\<close>

definition PROFILER_COLORS_RED :: string where
  "PROFILER_COLORS_RED = ''#F66''"

definition PROFILER_COLORS_ORANGE :: string where
  "PROFILER_COLORS_ORANGE = ''#FDB462''"

definition PROFILER_COLORS_GREEN :: string where
  "PROFILER_COLORS_GREEN = ''#90EE90''"

definition DEFAULT_THRESHOLDS_RED :: rat where
  "DEFAULT_THRESHOLDS_RED = 80"

definition DEFAULT_THRESHOLDS_ORANGE :: rat where
  "DEFAULT_THRESHOLDS_ORANGE = 50"

text \<open>
  The classifier. With \<open>maxTime = 0\<close> (which no caller passes: each floors the maximum
  at 1) the quotient in JavaScript is \<^verbatim>\<open>Infinity\<close>, \<^verbatim>\<open>NaN\<close> or \<^verbatim>\<open>-Infinity\<close> as
  \<open>time\<close> is positive, zero or negative, and only \<^verbatim>\<open>Infinity\<close> exceeds a cutoff.
\<close>

definition getBarColor :: "rat \<Rightarrow> rat \<Rightarrow> rat \<Rightarrow> rat \<Rightarrow> string" where
  "getBarColor time maxTime redThreshold orangeThreshold =
     (if maxTime = 0 then
        (if 0 < time then PROFILER_COLORS_RED else PROFILER_COLORS_GREEN)
      else
        (let ratio = time / maxTime in
         if ratio > redThreshold / 100 then PROFILER_COLORS_RED
         else if ratio > orangeThreshold / 100 then PROFILER_COLORS_ORANGE
         else PROFILER_COLORS_GREEN))"

text \<open>The call with both cutoffs left to their default parameter values.\<close>

definition getBarColor_default :: "rat \<Rightarrow> rat \<Rightarrow> string" where
  "getBarColor_default time maxTime =
     getBarColor time maxTime DEFAULT_THRESHOLDS_RED DEFAULT_THRESHOLDS_ORANGE"

section \<open>The tree normalizer: QueryTree.processedQueries (components/QueryTree.tsx, in the
  sources the second part of components/ErrorBoundary.tsx)\<close>

text \<open>
  \<open>QueryProfile\<close> and \<open>AggregationProfile\<close> have the same five fields and the code
  treats them alike, so one type serves both. The code guards every field with
  \<^verbatim>\<open>||\<close> or \<^verbatim>\<open>?.\<close>, so every field may be absent (\<open>None\<close>).
\<close>

datatype QueryProfile = QueryProfile
  (q_type: "string option")
  (q_description: "string option")
  (q_time_in_nanos: "rat option")
  (q_breakdown: "(string \<times> rat) list option")
  (q_children: "QueryProfile list option")

datatype CollectorProfile = CollectorProfile
  (c_name: "string option")
  (c_reason: "string option")
  (c_time_in_nanos: "rat option")
  (c_breakdown: "(string \<times> rat) list option")
  (c_children: "CollectorProfile list option")

text \<open>
  The display node. \<open>p_percentage\<close> is \<open>None\<close> when the JavaScript value would be
  \<^verbatim>\<open>NaN\<close> or an infinity, which a division by zero produces.
\<close>

datatype ProcessedQuery = ProcessedQuery
  (p_id: string)
  (p_queryName: string)
  (p_type: string)
  (p_description: string)
  (p_time_ms: rat)
  (p_time_in_nanos: rat)
  (p_percentage: "rat option")
  (p_breakdown: "(string \<times> rat) list")
  (p_rawBreakdown: "(string \<times> rat) list")
  (p_children: "ProcessedQuery list option")

datatype Tab = Search | Aggregation

record QueryTreeProps =
  queries :: "QueryProfile list option"
  aggregations :: "QueryProfile list option"
  rewriteTime :: "rat option"
  collectors :: "CollectorProfile list option"

text \<open>\<^verbatim>\<open>x || 0\<close> on a number, \<^verbatim>\<open>s || d\<close> on a string, \<^verbatim>\<open>b || {}\<close> on a breakdown.\<close>

fun or_zero :: "rat option \<Rightarrow> rat" where
  "or_zero None = 0"
| "or_zero (Some r) = (if r = 0 then 0 else r)"

fun or_string :: "string option \<Rightarrow> string \<Rightarrow> string" where
  "or_string None d = d"
| "or_string (Some s) d = (if s = [] then d else s)"

fun or_empty :: "(string \<times> rat) list option \<Rightarrow> (string \<times> rat) list" where
  "or_empty None = []"
| "or_empty (Some b) = b"

text \<open>JavaScript division of finite numbers: a zero divisor gives \<^verbatim>\<open>NaN\<close> or an
  infinity, here \<open>None\<close>.\<close>

definition js_div :: "rat \<Rightarrow> rat \<Rightarrow> rat option" where
  "js_div a b = (if b = 0 then None else Some (a / b))"

text \<open>\<^verbatim>\<open>totalTime > 0 ? (t / totalTime) * 100 : 0\<close>\<close>

definition percentage_of :: "rat \<Rightarrow> rat \<Rightarrow> rat option" where
  "percentage_of t totalTime =
     (if totalTime > 0 then map_option (\<lambda>q. q * 100) (js_div t totalTime) else Some 0)"

text \<open>\<^verbatim>\<open>parentPath ? `${parentPath}-${index}` : rootId\<close>\<close>

definition node_path :: "string \<Rightarrow> nat \<Rightarrow> string \<Rightarrow> string" where
  "node_path parentPath index rootId =
     (if parentPath \<noteq> [] then parentPath @ ''-'' @ string_of_nat index else rootId)"

text \<open>
  \<open>transformQuery\<close> with the denominator \<open>totalTime\<close> of its closure as first argument;
  \<open>transformQueries qs idx path\<close> is \<^verbatim>\<open>qs.map((child, i) => transformQuery(child, i, path))\<close>
  for the elements from index \<open>idx\<close> on.
\<close>

fun transformQuery :: "rat \<Rightarrow> QueryProfile \<Rightarrow> nat \<Rightarrow> string \<Rightarrow> ProcessedQuery"
  and transformQueries :: "rat \<Rightarrow> QueryProfile list \<Rightarrow> nat \<Rightarrow> string \<Rightarrow> ProcessedQuery list"
where
  "transformQuery totalTime (QueryProfile ty de tn bd ch) index parentPath =
     ProcessedQuery
       (''query-'' @ node_path parentPath index (string_of_nat index))
       (or_string ty ''Unknown Query'')
       (or_string ty ''Unknown'')
       (or_string de '''')
       (or_zero tn / 1000000)
       (or_zero tn)
       (percentage_of (or_zero tn) totalTime)
       (or_empty bd)
       (or_empty bd)
       (case ch of
          None \<Rightarrow> None
        | Some cs \<Rightarrow>
            Some (transformQueries totalTime cs 0
                    (node_path parentPath index (string_of_nat index))))"
| "transformQueries totalTime [] idx path = []"
| "transformQueries totalTime (q # qs) idx path =
     transformQuery totalTime q idx path # transformQueries totalTime qs (Suc idx) path"

fun transformCollector :: "rat \<Rightarrow> CollectorProfile \<Rightarrow> nat \<Rightarrow> string \<Rightarrow> ProcessedQuery"
  and transformCollectors ::
    "rat \<Rightarrow> CollectorProfile list \<Rightarrow> nat \<Rightarrow> string \<Rightarrow> ProcessedQuery list"
where
  "transformCollector totalTime (CollectorProfile nm re tn bd ch) index parentPath =
     ProcessedQuery
       (node_path parentPath index (''collector-'' @ string_of_nat index))
       (or_string nm ''Collector'')
       (or_string nm ''Collector'')
       (or_string re '''')
       (or_zero tn / 1000000)
       (or_zero tn)
       (percentage_of (or_zero tn) totalTime)
       (or_empty bd)
       (or_empty bd)
       (case ch of
          None \<Rightarrow> None
        | Some cs \<Rightarrow>
            Some (transformCollectors totalTime cs 0
                    (node_path parentPath index (''collector-'' @ string_of_nat index))))"
| "transformCollectors totalTime [] idx path = []"
| "transformCollectors totalTime (c # cs) idx path =
     transformCollector totalTime c idx path # transformCollectors totalTime cs (Suc idx) path"

text \<open>Lines 147-152: the array of the active tab.\<close>

definition activeData :: "Tab \<Rightarrow> QueryTreeProps \<Rightarrow> QueryProfile list" where
  "activeData activeTab props =
     (if activeTab = Aggregation
      then (case aggregations props of None \<Rightarrow> [] | Some a \<Rightarrow> a)
      else (case queries props of None \<Rightarrow> [] | Some q \<Rightarrow> q))"

text \<open>Lines 159-169: the denominator.\<close>

definition totalTime :: "Tab \<Rightarrow> QueryTreeProps \<Rightarrow> rat" where
  "totalTime activeTab props =
     (let t0 = foldl (\<lambda>sum q. sum + or_zero (q_time_in_nanos q)) 0 (activeData activeTab props)
      in if activeTab = Search then
           (let t1 = (case rewriteTime props of
                        None \<Rightarrow> t0
                      | Some rw \<Rightarrow> if rw > 0 then t0 + rw else t0)
            in (case collectors props of
                  None \<Rightarrow> t1
                | Some cs \<Rightarrow>
                    if length cs > 0
                    then t1 + foldl (\<lambda>sum c. sum + or_zero (c_time_in_nanos c)) 0 cs
                    else t1))
         else t0)"

text \<open>Lines 195-209: the synthetic rewrite node, when there is one.\<close>

definition rewriteNodes :: "rat \<Rightarrow> rat option \<Rightarrow> ProcessedQuery list" where
  "rewriteNodes denom rw_opt =
     (case rw_opt of
        None \<Rightarrow> []
      | Some rw \<Rightarrow>
          if rw > 0 then
            [ProcessedQuery ''rewrite'' ''Rewrite'' ''Rewrite'' ''Query rewrite time''
               (rw / 1000000) rw (percentage_of rw denom) [] [] None]
          else [])"

text \<open>Lines 212-235: the collector nodes.\<close>

definition collectorNodes :: "rat \<Rightarrow> CollectorProfile list option \<Rightarrow> ProcessedQuery list" where
  "collectorNodes denom cs_opt =
     (case cs_opt of
        None \<Rightarrow> []
      | Some cs \<Rightarrow> if length cs > 0 then transformCollectors denom cs 0 [] else [])"

definition processedQueries :: "Tab \<Rightarrow> QueryTreeProps \<Rightarrow> ProcessedQuery list" where
  "processedQueries activeTab props =
     (if length (activeData activeTab props) = 0 then []
      else
        (let denom = totalTime activeTab props;
             result = transformQueries denom (activeData activeTab props) 0 []
         in if activeTab = Search
            then result @ rewriteNodes denom (rewriteTime props)
                        @ collectorNodes denom (collectors props)
            else result))"

text \<open>Every node of a produced tree, at every depth.\<close>

fun nodes_of :: "ProcessedQuery \<Rightarrow> ProcessedQuery list"
  and nodes_of_list :: "ProcessedQuery list \<Rightarrow> ProcessedQuery list"
where
  "nodes_of (ProcessedQuery i qn ty de ms tn pc bd rb ch) =
     ProcessedQuery i qn ty de ms tn pc bd rb ch
       # (case ch of None \<Rightarrow> [] | Some cs \<Rightarrow> nodes_of_list cs)"
| "nodes_of_list [] = []"
| "nodes_of_list (n # ns) = nodes_of n @ nodes_of_list ns"

text \<open>
  The denominator in the words of the specification: the sum of \<open>time_in_nanos\<close> over
  the root-level array of the active tab, plus, on the search tab, \<open>rewrite_time\<close> if it
  is positive and the sum of the root-level collector times.
\<close>

definition spec_denominator :: "Tab \<Rightarrow> QueryTreeProps \<Rightarrow> rat" where
  "spec_denominator activeTab props =
     (case activeTab of
        Aggregation \<Rightarrow>
          sum_list (map (\<lambda>q. or_zero (q_time_in_nanos q))
                        (case aggregations props of None \<Rightarrow> [] | Some a \<Rightarrow> a))
      | Search \<Rightarrow>
          sum_list (map (\<lambda>q. or_zero (q_time_in_nanos q))
                        (case queries props of None \<Rightarrow> [] | Some q \<Rightarrow> q))
          + (case rewriteTime props of None \<Rightarrow> 0 | Some rw \<Rightarrow> if rw > 0 then rw else 0)
          + sum_list (map (\<lambda>c. or_zero (c_time_in_nanos c))
                          (case collectors props of None \<Rightarrow> [] | Some cs \<Rightarrow> cs)))"

text \<open>Whether the rewrite time is present and positive; the collectors, none when absent.\<close>

definition rewrite_positive :: "QueryTreeProps \<Rightarrow> bool" where
  "rewrite_positive props = (case rewriteTime props of None \<Rightarrow> False | Some rw \<Rightarrow> rw > 0)"

definition collector_list :: "QueryTreeProps \<Rightarrow> CollectorProfile list" where
  "collector_list props = (case collectors props of None \<Rightarrow> [] | Some cs \<Rightarrow> cs)"

text \<open>The id of each child of \<open>n\<close> is the id of \<open>n\<close>, a hyphen and the child's index.\<close>

definition child_ids_extend :: "ProcessedQuery \<Rightarrow> bool" where
  "child_ids_extend n =
     (case p_children n of
        None \<Rightarrow> True
      | Some cs \<Rightarrow> \<forall>j < length cs. p_id (cs ! j) = p_id n @ ''-'' @ string_of_nat j)"

subsection \<open>Sample inputs\<close>

text \<open>A search with one query that has a child, a rewrite time, one collector with a
  child, and one aggregation: 500 + 100 + 400 nanoseconds on the search tab.\<close>

definition example_props :: QueryTreeProps where
  "example_props =
     \<lparr>queries = Some
        [QueryProfile (Some ''BooleanQuery'') (Some ''+x:1 +y:2'') (Some 500)
           (Some [(''match'', 3)])
           (Some [QueryProfile (Some ''TermQuery'') (Some ''x:1'') (Some 300) None None])],
      aggregations = Some
        [QueryProfile (Some ''TermsAggregator'') (Some ''genres'') (Some 250) None None],
      rewriteTime = Some 100,
      collectors = Some
        [CollectorProfile (Some ''MultiCollector'') (Some ''search_multi'') (Some 400) None
           (Some [CollectorProfile (Some ''TopDocsCollector'') (Some ''search_top_hits'')
                    (Some 100) None None])]\<rparr>"


text \<open>A search with no root query, a positive rewrite time and one collector.\<close>

definition no_query_props :: QueryTreeProps where
  "no_query_props =
     \<lparr>queries = Some [],
      aggregations = None,
      rewriteTime = Some 5,
      collectors = Some [CollectorProfile (Some ''TopDocsCollector'') None (Some 7) None None]\<rparr>"

section \<open>getBreakdownEntries (components/QueryDetailPanel.tsx)\<close>

record BreakdownEntry =
  operation :: string
  timeNs :: rat
  count :: rat

text \<open>\<^verbatim>\<open>s.endsWith(suffix)\<close>\<close>

definition endsWith :: "string \<Rightarrow> string \<Rightarrow> bool" where
  "endsWith s suffix =
     (length suffix \<le> length s \<and> drop (length s - length suffix) s = suffix)"

text \<open>
  The class \<^verbatim>\<open>\w\<close> of a regular expression without the \<^verbatim>\<open>u\<close> flag: an ASCII
  letter, digit or underscore. \<open>toUpperCase\<close> is \<^verbatim>\<open>c.toUpperCase()\<close> on such a character.
\<close>

definition is_word_char :: "char \<Rightarrow> bool" where
  "is_word_char c =
     (c \<in> set (''abcdefghijklmnopqrstuvwxyz'' @ ''ABCDEFGHIJKLMNOPQRSTUVWXYZ''
                 @ ''0123456789'' @ ''_''))"

definition toUpperCase :: "char \<Rightarrow> char" where
  "toUpperCase c =
     (case map_of (zip ''abcdefghijklmnopqrstuvwxyz'' ''ABCDEFGHIJKLMNOPQRSTUVWXYZ'') c of
        Some u \<Rightarrow> u
      | None \<Rightarrow> c)"

text \<open>\<^verbatim>\<open>key.replace(/_/g, ' ')\<close>\<close>

definition replace_underscores :: "string \<Rightarrow> string" where
  "replace_underscores s = map (\<lambda>c. if c = CHR ''_'' then CHR '' '' else c) s"

text \<open>
  \<^verbatim>\<open>s.replace(/\b\w/g, (c) => c.toUpperCase())\<close>: a word character that stands at a
  word boundary, that is, whose predecessor is no word character, is replaced. \<open>prev\<close>
  tells whether the character before the rest of the text is a word character.
\<close>

fun capitalize_words :: "bool \<Rightarrow> string \<Rightarrow> string" where
  "capitalize_words prev [] = []"
| "capitalize_words prev (c # cs) =
     (if is_word_char c \<and> \<not> prev then toUpperCase c else c)
       # capitalize_words (is_word_char c) cs"

definition humanize :: "string \<Rightarrow> string" where
  "humanize key = capitalize_words False (replace_underscores key)"

text \<open>
  The body of \<^verbatim>\<open>Object.keys(breakdown).forEach\<close>, run over the keys that remain, with
  the two variables it updates: \<open>entries\<close> and the set \<open>processedKeys\<close>. A breakdown is
  typed \<^verbatim>\<open>Record<string, number>\<close>, so a value that is present is a number.
\<close>

fun forEachKey ::
  "bool \<Rightarrow> (string \<times> rat) list \<Rightarrow> string list \<Rightarrow> BreakdownEntry list \<times> string list
     \<Rightarrow> BreakdownEntry list \<times> string list"
where
  "forEachKey includeZeros breakdown [] st = st"
| "forEachKey includeZeros breakdown (key # keys) (entries, processedKeys) =
     (if key \<in> set processedKeys \<or> endsWith key ''_count'' then
        forEachKey includeZeros breakdown keys (entries, processedKeys)
      else
        (let countKey = key @ ''_count'';
             countValue = or_zero (map_of breakdown countKey)
         in case map_of breakdown key of
              None \<Rightarrow> forEachKey includeZeros breakdown keys (entries, processedKeys)
            | Some timeValue \<Rightarrow>
                if includeZeros \<or> timeValue > 0 \<or> countValue > 0 then
                  forEachKey includeZeros breakdown keys
                    (entries @ [\<lparr>operation = humanize key, timeNs = timeValue,
                                  count = countValue\<rparr>],
                     countKey # key # processedKeys)
                else forEachKey includeZeros breakdown keys (entries, processedKeys)))"

text \<open>
  \<^verbatim>\<open>Array.prototype.sort\<close> with a comparator: a stable sort that puts \<open>a\<close> before \<open>b\<close>
  when \<open>compare a b\<close> is negative.
\<close>

fun insert_sorted :: "('a \<Rightarrow> 'a \<Rightarrow> rat) \<Rightarrow> 'a \<Rightarrow> 'a list \<Rightarrow> 'a list" where
  "insert_sorted compare x [] = [x]"
| "insert_sorted compare x (y # ys) =
     (if compare x y \<le> 0 then x # y # ys else y # insert_sorted compare x ys)"

definition array_sort :: "('a \<Rightarrow> 'a \<Rightarrow> rat) \<Rightarrow> 'a list \<Rightarrow> 'a list" where
  "array_sort compare xs = foldr (insert_sorted compare) xs []"

definition getBreakdownEntries :: "bool \<Rightarrow> QueryProfile option \<Rightarrow> BreakdownEntry list" where
  "getBreakdownEntries includeZeros query =
     (case query of
        None \<Rightarrow> []
      | Some q \<Rightarrow>
          (case q_breakdown q of
             None \<Rightarrow> []
           | Some breakdown \<Rightarrow>
               array_sort (\<lambda>a b. timeNs b - timeNs a)
                 (fst (forEachKey includeZeros breakdown (map fst breakdown) ([], [])))))"

text \<open>
  The rows in the words of the specification: the count paired with a key (0 when the
  \<open>_count\<close> sibling is absent), the row of a key, and whether the mode includes it.
\<close>

definition paired_count :: "(string \<times> rat) list \<Rightarrow> string \<Rightarrow> rat" where
  "paired_count breakdown key =
     (case map_of breakdown (key @ ''_count'') of None \<Rightarrow> 0 | Some c \<Rightarrow> c)"

definition breakdown_row :: "(string \<times> rat) list \<Rightarrow> string \<times> rat \<Rightarrow> BreakdownEntry" where
  "breakdown_row breakdown kv =
     \<lparr>operation = humanize (fst kv), timeNs = snd kv, count = paired_count breakdown (fst kv)\<rparr>"

definition row_included :: "bool \<Rightarrow> (string \<times> rat) list \<Rightarrow> string \<times> rat \<Rightarrow> bool" where
  "row_included raw breakdown kv =
     (\<not> endsWith (fst kv) ''_count''
      \<and> (raw \<or> snd kv > 0 \<or> paired_count breakdown (fst kv) > 0))"

text \<open>The query of the specification's example, with one timed operation.\<close>

definition example_query :: QueryProfile where
  "example_query =
     QueryProfile (Some ''TermQuery'') (Some ''x:1'') (Some 1000000)
       (Some [(''match'', 800000), (''match_count'', 1), (''build_scorer'', 90),
              (''next_doc'', 0), (''next_doc_count'', 0), (''set_min_competitive_score'', 120000)])
       None"

subsection \<open>A sample document and its two texts\<close>









section \<open>Properties of the validator\<close>

lemma validateShards_searches_arrays:
  "\<forall>s \<in> set shards. \<exists>skvs xs. s = JObj skvs \<and> map_of skvs ''searches'' = Some (JArr xs)
   \<Longrightarrow> validateShards shards i = None"
  by (induction shards arbitrary: i) auto

text \<open>
  C3 (as amended). For a decoded input object, validation fails with
  \<open>MISSING_PROFILE_DATA\<close> when the \<open>profile\<close> key is absent, and also with
  \<open>MISSING_PROFILE_DATA\<close> when the key is present with a value that is null, a boolean, a
  number or a string: one guard covers both. A \<open>profile\<close> that is an array passes that
  guard and fails with \<open>INVALID_PROFILE_FORMAT\<close> at the check of \<open>profile.shards\<close>.
\<close>

theorem validate_profile_absent_or_not_object:
  assumes "data = JObj kvs"
  shows "(map_of kvs ''profile'' = None \<longrightarrow>
            failure_type (validateProfileData data) = Some MISSING_PROFILE_DATA)
       \<and> (\<forall>v. map_of kvs ''profile'' = Some v \<and> \<not> is_object v \<and> \<not> isArray (Some v) \<longrightarrow>
            failure_type (validateProfileData data) = Some MISSING_PROFILE_DATA)
       \<and> (\<forall>xs. map_of kvs ''profile'' = Some (JArr xs) \<longrightarrow>
            failure_type (validateProfileData data) = Some INVALID_PROFILE_FORMAT)"
proof (intro conjI allI impI)
  assume "map_of kvs ''profile'' = None"
  with assms show "failure_type (validateProfileData data) = Some MISSING_PROFILE_DATA"
    by (simp add: validateProfileData_def failure_type_def)
next
  fix v
  assume v: "map_of kvs ''profile'' = Some v \<and> \<not> is_object v \<and> \<not> isArray (Some v)"
  then have "\<not> truthy v \<or> \<not> typeof_object v"
    by (cases v) simp_all
  with assms v show "failure_type (validateProfileData data) = Some MISSING_PROFILE_DATA"
    by (auto simp add: validateProfileData_def failure_type_def)
next
  fix xs
  assume "map_of kvs ''profile'' = Some (JArr xs)"
  with assms show "failure_type (validateProfileData data) = Some INVALID_PROFILE_FORMAT"
    by (simp add: validateProfileData_def failure_type_def)
qed

theorem validate_profile_absent_or_not_object_witness:
  "failure_type (validateProfileData (JObj [(''took'', JNum 3)])) = Some MISSING_PROFILE_DATA
   \<and> failure_type (validateProfileData (JObj [(''profile'', JNum 7)])) = Some MISSING_PROFILE_DATA
   \<and> failure_type (validateProfileData (JObj [(''profile'', JArr [JNum 7])]))
       = Some INVALID_PROFILE_FORMAT"
  using validate_profile_absent_or_not_object [of "JObj [(''took'', JNum 3)]" "[(''took'', JNum 3)]"]
    validate_profile_absent_or_not_object [of "JObj [(''profile'', JNum 7)]" "[(''profile'', JNum 7)]"]
    validate_profile_absent_or_not_object
      [of "JObj [(''profile'', JArr [JNum 7])]" "[(''profile'', JArr [JNum 7])]"]
  by simp

text \<open>
  C3 as the specification states it fails: the document \<^verbatim>\<open>{"profile": "x"}\<close> has the
  \<open>profile\<close> key, its value is not an object, and the error kind is not
  \<open>INVALID_PROFILE_FORMAT\<close> but \<open>MISSING_PROFILE_DATA\<close>.
\<close>

theorem validate_profile_string_counterexample:
  "get_prop (JObj [(''profile'', JStr ''x'')]) ''profile'' = Some (JStr ''x'')
   \<and> \<not> is_object (JStr ''x'')
   \<and> failure_type (validateProfileData (JObj [(''profile'', JStr ''x'')]))
        \<noteq> Some INVALID_PROFILE_FORMAT
   \<and> failure_type (validateProfileData (JObj [(''profile'', JStr ''x'')]))
        = Some MISSING_PROFILE_DATA"
  by (simp add: validateProfileData_def failure_type_def)

text \<open>
  C7. For a decoded input object whose \<open>profile\<close> value is an object, validation fails
  with \<open>INVALID_PROFILE_FORMAT\<close> when \<open>profile.shards\<close> is present but not an array, and
  with \<open>MISSING_PROFILE_DATA\<close> when \<open>profile.shards\<close> is the empty array.
\<close>

theorem validate_shards_shape_versus_empty:
  assumes "data = JObj kvs" and "map_of kvs ''profile'' = Some (JObj pkvs)"
  shows "(\<forall>v. map_of pkvs ''shards'' = Some v \<and> \<not> isArray (Some v) \<longrightarrow>
            failure_type (validateProfileData data) = Some INVALID_PROFILE_FORMAT)
       \<and> (map_of pkvs ''shards'' = Some (JArr []) \<longrightarrow>
            failure_type (validateProfileData data) = Some MISSING_PROFILE_DATA)"
  using assms
  by (auto simp add: validateProfileData_def failure_type_def split: option.splits json.splits)

theorem validate_shards_shape_versus_empty_witness:
  "failure_type (validateProfileData (JObj [(''profile'', JObj [(''shards'', JObj [])])]))
     = Some INVALID_PROFILE_FORMAT
   \<and> failure_type (validateProfileData (JObj [(''profile'', JObj [(''shards'', JArr [])])]))
     = Some MISSING_PROFILE_DATA"
  using validate_shards_shape_versus_empty
      [of "JObj [(''profile'', JObj [(''shards'', JObj [])])]"
          "[(''profile'', JObj [(''shards'', JObj [])])]" "[(''shards'', JObj [])]"]
    validate_shards_shape_versus_empty
      [of "JObj [(''profile'', JObj [(''shards'', JArr [])])]"
          "[(''profile'', JObj [(''shards'', JArr [])])]" "[(''shards'', JArr [])]"]
  by simp

text \<open>
  C10. Validation is shallow below the shard level: when \<open>profile\<close> is an object whose
  \<open>shards\<close> is a non-empty array of objects that each have a \<open>searches\<close> array, the
  document validates, whatever the elements of the \<open>searches\<close> arrays are and whatever
  any other field (such as \<open>aggregations\<close>) holds.
\<close>

theorem validate_shallow_below_shards:
  assumes "data = JObj kvs"
    and "map_of kvs ''profile'' = Some (JObj pkvs)"
    and "map_of pkvs ''shards'' = Some (JArr shards)"
    and "shards \<noteq> []"
    and "\<forall>s \<in> set shards. \<exists>skvs xs. s = JObj skvs \<and> map_of skvs ''searches'' = Some (JArr xs)"
  shows "isValid (validateProfileData data)"
  using assms validateShards_searches_arrays [of shards 0]
  by (simp add: validateProfileData_def isValid_def)

theorem validate_shallow_below_shards_witness:
  "isValid (validateProfileData
     (JObj [(''profile'', JObj [(''shards'',
        JArr [JObj [(''searches'', JArr [JStr ''junk'', JNum 3, JNull]),
                    (''aggregations'', JBool True)]])])]))"
  using validate_shallow_below_shards
    [of "JObj [(''profile'', JObj [(''shards'',
           JArr [JObj [(''searches'', JArr [JStr ''junk'', JNum 3, JNull]),
                       (''aggregations'', JBool True)]])])]"
        "[(''profile'', JObj [(''shards'',
           JArr [JObj [(''searches'', JArr [JStr ''junk'', JNum 3, JNull]),
                       (''aggregations'', JBool True)]])])]"
        "[(''shards'',
           JArr [JObj [(''searches'', JArr [JStr ''junk'', JNum 3, JNull]),
                       (''aggregations'', JBool True)]])]"
        "[JObj [(''searches'', JArr [JStr ''junk'', JNum 3, JNull]),
                (''aggregations'', JBool True)]]"]
  by simp


section \<open>Properties of the tree normalizer\<close>

subsection \<open>The recursion as a map with index\<close>

lemma string_of_nat_nonempty: "string_of_nat n \<noteq> []"
  by (subst string_of_nat.simps) simp

lemma transformQueries_map:
  "transformQueries T qs k p = map (\<lambda>(i, q). transformQuery T q i p) (enumerate k qs)"
  by (induction qs arbitrary: k) simp_all

lemma transformCollectors_map:
  "transformCollectors T cs k p = map (\<lambda>(i, c). transformCollector T c i p) (enumerate k cs)"
  by (induction cs arbitrary: k) simp_all

lemma transformQueries_nth:
  "j < length qs \<Longrightarrow> transformQueries T qs k p ! j = transformQuery T (qs ! j) (k + j) p"
  by (simp add: transformQueries_map nth_enumerate_eq)

lemma transformCollectors_nth:
  "j < length cs \<Longrightarrow> transformCollectors T cs k p ! j = transformCollector T (cs ! j) (k + j) p"
  by (simp add: transformCollectors_map nth_enumerate_eq)

lemma transformQueries_length: "length (transformQueries T qs k p) = length qs"
  by (simp add: transformQueries_map)

lemma transformCollectors_length: "length (transformCollectors T cs k p) = length cs"
  by (simp add: transformCollectors_map)

lemma nodes_of_list_append: "nodes_of_list (xs @ ys) = nodes_of_list xs @ nodes_of_list ys"
  by (induction xs) simp_all

lemma collectorNodes_list:
  "collectorNodes T (collectors props) = transformCollectors T (collector_list props) 0 []"
  by (auto simp add: collectorNodes_def collector_list_def split: option.splits)

lemma processedQueries_search:
  "activeData Search props \<noteq> [] \<Longrightarrow>
   processedQueries Search props =
     transformQueries (totalTime Search props) (activeData Search props) 0 []
     @ rewriteNodes (totalTime Search props) (rewriteTime props)
     @ transformCollectors (totalTime Search props) (collector_list props) 0 []"
  by (simp add: processedQueries_def Let_def collectorNodes_list)

lemma processedQueries_aggregation:
  "processedQueries Aggregation props =
     transformQueries (totalTime Aggregation props) (activeData Aggregation props) 0 []"
  by (simp add: processedQueries_def Let_def)

lemma processedQueries_roots:
  "processedQueries tab props =
     transformQueries (totalTime tab props) (activeData tab props) 0 []
     @ drop (length (activeData tab props)) (processedQueries tab props)"
  by (cases tab) (simp_all add: processedQueries_def Let_def transformQueries_length)

subsection \<open>The denominator and the percentages\<close>

lemma foldl_plus_sum_list:
  "foldl (\<lambda>acc x. acc + f x) a xs = (a::rat) + sum_list (map f xs)"
  by (induction xs arbitrary: a) simp_all

lemma totalTime_spec: "totalTime activeTab props = spec_denominator activeTab props"
  by (cases activeTab)
     (auto simp add: totalTime_def spec_denominator_def activeData_def foldl_plus_sum_list Let_def
           split: option.splits)

lemma transformQuery_percentage:
  "\<forall>n \<in> set (nodes_of (transformQuery T q i p)).
     p_percentage n = percentage_of (p_time_in_nanos n) T"
  "\<forall>n \<in> set (nodes_of_list (transformQueries T qs k p)).
     p_percentage n = percentage_of (p_time_in_nanos n) T"
  by (induction T q i p and T qs k p rule: transformQuery_transformQueries.induct)
     (auto split: option.splits)

lemma transformCollector_percentage:
  "\<forall>n \<in> set (nodes_of (transformCollector T c i p)).
     p_percentage n = percentage_of (p_time_in_nanos n) T"
  "\<forall>n \<in> set (nodes_of_list (transformCollectors T cs k p)).
     p_percentage n = percentage_of (p_time_in_nanos n) T"
  by (induction T c i p and T cs k p rule: transformCollector_transformCollectors.induct)
     (auto split: option.splits)

lemma processedQueries_percentage:
  "\<forall>n \<in> set (nodes_of_list (processedQueries tab props)).
     p_percentage n = percentage_of (p_time_in_nanos n) (totalTime tab props)"
  using transformQuery_percentage(2) transformCollector_percentage(2)
  by (auto simp add: processedQueries_def Let_def nodes_of_list_append rewriteNodes_def
        collectorNodes_def split: option.splits)

lemmas normalizer_eval = processedQueries_def activeData_def totalTime_def rewriteNodes_def
  collectorNodes_def percentage_of_def js_div_def node_path_def Let_def string_of_nat.simps
  digit_char_def

text \<open>
  C1. The denominator the code computes is the sum of \<open>time_in_nanos\<close> over the
  root-level array of the active tab, plus, on the search tab, the rewrite time when positive
  and the sum of the root-level collector times. Every node of the produced tree, at every
  depth, has as percentage its own \<open>time_in_nanos\<close> divided by that one denominator, times
  100 (the guard of the code gives 0 when the denominator is not positive).
\<close>

theorem percentage_shared_denominator:
  "totalTime tab props = spec_denominator tab props
   \<and> (\<forall>n \<in> set (nodes_of_list (processedQueries tab props)).
        p_percentage n =
          (if 0 < spec_denominator tab props
           then Some (p_time_in_nanos n / spec_denominator tab props * 100) else Some 0))"
  using processedQueries_percentage[of tab props]
  by (auto simp add: totalTime_spec percentage_of_def js_div_def)

theorem percentage_shared_denominator_witness:
  "totalTime Search example_props = 1000
   \<and> map p_time_in_nanos (nodes_of_list (processedQueries Search example_props))
       = [500, 300, 100, 400, 100]
   \<and> map p_percentage (nodes_of_list (processedQueries Search example_props))
       = map (\<lambda>n. Some (p_time_in_nanos n / 1000 * 100))
           (nodes_of_list (processedQueries Search example_props))"
proof -
  have d: "spec_denominator Search example_props = 1000"
    by (simp add: example_props_def spec_denominator_def)
  have ts: "map p_time_in_nanos (nodes_of_list (processedQueries Search example_props))
       = [500, 300, 100, 400, 100]"
    by (simp add: example_props_def normalizer_eval)
  show ?thesis
    using percentage_shared_denominator [of Search example_props] d ts by simp
qed




subsection \<open>Node identifiers\<close>

lemma transformQuery_id:
  "p_id (transformQuery T q i p) = ''query-'' @ node_path p i (string_of_nat i)"
  by (cases q) simp

lemma transformCollector_id:
  "p_id (transformCollector T c i p) = node_path p i (''collector-'' @ string_of_nat i)"
  by (cases c) simp

lemma transformQuery_child_ids:
  "\<forall>n \<in> set (nodes_of (transformQuery T q i p)). child_ids_extend n"
  "\<forall>n \<in> set (nodes_of_list (transformQueries T qs k p)). child_ids_extend n"
proof (induction T q i p and T qs k p rule: transformQuery_transformQueries.induct)
  case (1 totalTime ty de tn bd ch index parentPath)
  then show ?case
    by (auto simp add: child_ids_extend_def transformQueries_nth transformQueries_length
          transformQuery_id node_path_def string_of_nat_nonempty split: option.splits)
qed auto

lemma transformCollector_child_ids:
  "\<forall>n \<in> set (nodes_of (transformCollector T c i p)). child_ids_extend n"
  "\<forall>n \<in> set (nodes_of_list (transformCollectors T cs k p)). child_ids_extend n"
proof (induction T c i p and T cs k p rule: transformCollector_transformCollectors.induct)
  case (1 totalTime nm re tn bd ch index parentPath)
  then show ?case
    by (auto simp add: child_ids_extend_def transformCollectors_nth transformCollectors_length
          transformCollector_id node_path_def string_of_nat_nonempty split: option.splits)
qed auto

lemma transformQuery_id_hd:
  "\<forall>n \<in> set (nodes_of (transformQuery T q i p)). hd (p_id n) = CHR ''q''"
  "\<forall>n \<in> set (nodes_of_list (transformQueries T qs k p)). hd (p_id n) = CHR ''q''"
  by (induction T q i p and T qs k p rule: transformQuery_transformQueries.induct)
     (auto split: option.splits)

lemma transformCollector_id_hd:
  "p = [] \<or> hd p = CHR ''c'' \<Longrightarrow>
     \<forall>n \<in> set (nodes_of (transformCollector T c i p)). hd (p_id n) = CHR ''c''"
  "p = [] \<or> hd p = CHR ''c'' \<Longrightarrow>
     \<forall>n \<in> set (nodes_of_list (transformCollectors T cs k p)). hd (p_id n) = CHR ''c''"
  by (induction T c i p and T cs k p rule: transformCollector_transformCollectors.induct)
     (auto simp add: node_path_def split: option.splits)

lemma rewriteNodes_length:
  "length (rewriteNodes T (rewriteTime props)) = (if rewrite_positive props then 1 else 0)"
  by (auto simp add: rewriteNodes_def rewrite_positive_def split: option.splits)

lemma rewriteNodes_filter:
  "filter (\<lambda>n. p_id n = ''rewrite'') (rewriteNodes T rw) = rewriteNodes T rw"
  "filter (\<lambda>n. take 10 (p_id n) = ''collector-'') (rewriteNodes T rw) = []"
  by (auto simp add: rewriteNodes_def split: option.splits)

lemma transformQueries_filter:
  "filter (\<lambda>n. p_id n = ''rewrite'') (transformQueries T qs k p) = []"
  "filter (\<lambda>n. take 10 (p_id n) = ''collector-'') (transformQueries T qs k p) = []"
  by (induction qs arbitrary: k) (simp_all add: transformQuery_id)

lemma transformCollectors_filter:
  "filter (\<lambda>n. p_id n = ''rewrite'') (transformCollectors T cs k []) = []"
  "filter (\<lambda>n. take 10 (p_id n) = ''collector-'') (transformCollectors T cs k [])
     = transformCollectors T cs k []"
  by (induction cs arbitrary: k) (simp_all add: transformCollector_id node_path_def)

text \<open>
  C5 (as amended). When the root array of the active tab is empty the normalized tree is
  empty, whatever the rewrite time and the collectors are. When the root query array is not
  empty, the tree of the search tab is the transformed root queries, in order, followed by
  the Rewrite node if and only if the rewrite time is positive, followed by one node per
  top-level collector, in order. The tree of the aggregation tab is the transformed root
  aggregations alone: it holds no Rewrite node and no collector node.
\<close>

theorem search_tab_synthetic_siblings:
  "(activeData tab props = [] \<longrightarrow> processedQueries tab props = [])
 \<and> (activeData Search props \<noteq> [] \<longrightarrow>
      processedQueries Search props =
        map (\<lambda>(i, q). transformQuery (totalTime Search props) q i [])
            (enumerate 0 (activeData Search props))
        @ rewriteNodes (totalTime Search props) (rewriteTime props)
        @ map (\<lambda>(i, c). transformCollector (totalTime Search props) c i [])
              (enumerate 0 (collector_list props))
      \<and> length (filter (\<lambda>n. p_id n = ''rewrite'') (processedQueries Search props))
          = (if rewrite_positive props then 1 else 0)
      \<and> length (filter (\<lambda>n. take 10 (p_id n) = ''collector-'') (processedQueries Search props))
          = length (collector_list props))
 \<and> (processedQueries Aggregation props =
        map (\<lambda>(i, q). transformQuery (totalTime Aggregation props) q i [])
            (enumerate 0 (activeData Aggregation props))
      \<and> filter (\<lambda>n. p_id n = ''rewrite'') (processedQueries Aggregation props) = []
      \<and> filter (\<lambda>n. take 10 (p_id n) = ''collector-'') (processedQueries Aggregation props) = [])"
proof (intro conjI impI)
  assume "activeData tab props = []"
  then show "processedQueries tab props = []"
    by (simp add: processedQueries_def)
next
  assume ne: "activeData Search props \<noteq> []"
  show "processedQueries Search props =
        map (\<lambda>(i, q). transformQuery (totalTime Search props) q i [])
            (enumerate 0 (activeData Search props))
        @ rewriteNodes (totalTime Search props) (rewriteTime props)
        @ map (\<lambda>(i, c). transformCollector (totalTime Search props) c i [])
              (enumerate 0 (collector_list props))"
    using ne by (simp add: processedQueries_search transformQueries_map transformCollectors_map)
  show "length (filter (\<lambda>n. p_id n = ''rewrite'') (processedQueries Search props))
          = (if rewrite_positive props then 1 else 0)"
    using ne
    by (simp add: processedQueries_search transformQueries_filter transformCollectors_filter
          rewriteNodes_filter rewriteNodes_length)
  show "length (filter (\<lambda>n. take 10 (p_id n) = ''collector-'') (processedQueries Search props))
          = length (collector_list props)"
    using ne
    by (simp add: processedQueries_search transformQueries_filter transformCollectors_filter
          rewriteNodes_filter transformCollectors_length)
next
  show "processedQueries Aggregation props =
        map (\<lambda>(i, q). transformQuery (totalTime Aggregation props) q i [])
            (enumerate 0 (activeData Aggregation props))"
    by (simp add: processedQueries_aggregation transformQueries_map)
  show "filter (\<lambda>n. p_id n = ''rewrite'') (processedQueries Aggregation props) = []"
    by (simp add: processedQueries_aggregation transformQueries_filter)
  show "filter (\<lambda>n. take 10 (p_id n) = ''collector-'') (processedQueries Aggregation props) = []"
    by (simp add: processedQueries_aggregation transformQueries_filter)
qed

theorem search_tab_synthetic_siblings_witness:
  "activeData Search example_props \<noteq> []
   \<and> map p_id (processedQueries Search example_props) = [''query-0'', ''rewrite'', ''collector-0'']
   \<and> length (filter (\<lambda>n. p_id n = ''rewrite'') (processedQueries Search example_props)) = 1
   \<and> length (filter (\<lambda>n. take 10 (p_id n) = ''collector-'')
               (processedQueries Search example_props)) = 1
   \<and> activeData Search no_query_props = []
   \<and> processedQueries Search no_query_props = []
   \<and> filter (\<lambda>n. p_id n = ''rewrite'') (processedQueries Aggregation example_props) = []"
proof -
  have a: "activeData Search example_props \<noteq> []" "rewrite_positive example_props"
    "length (collector_list example_props) = 1"
    by (simp_all add: example_props_def activeData_def rewrite_positive_def collector_list_def)
  have b: "activeData Search no_query_props = []"
    by (simp add: no_query_props_def activeData_def)
  have c: "map p_id (processedQueries Search example_props)
             = [''query-0'', ''rewrite'', ''collector-0'']"
    by (simp add: example_props_def normalizer_eval)
  have s: "length (filter (\<lambda>n. p_id n = ''rewrite'') (processedQueries Search example_props))
             = (if rewrite_positive example_props then 1 else 0)
           \<and> length (filter (\<lambda>n. take 10 (p_id n) = ''collector-'')
                       (processedQueries Search example_props))
             = length (collector_list example_props)"
    using search_tab_synthetic_siblings [of Search example_props] a(1) by blast
  have e: "processedQueries Search no_query_props = []"
    using search_tab_synthetic_siblings [of Search no_query_props] b by blast
  have g: "filter (\<lambda>n. p_id n = ''rewrite'') (processedQueries Aggregation example_props) = []"
    using search_tab_synthetic_siblings [of Search example_props] by blast
  show ?thesis
    using a b c s e g by simp
qed

text \<open>
  C5 as the specification states it fails: with no root query, a rewrite time of 5 and one
  collector, the search tab has neither a Rewrite node nor a collector node.
\<close>

theorem empty_queries_no_rewrite_node_counterexample:
  "rewrite_positive no_query_props
   \<and> collector_list no_query_props \<noteq> []
   \<and> processedQueries Search no_query_props = []"
  by (simp add: no_query_props_def rewrite_positive_def collector_list_def
        processedQueries_def activeData_def)

text \<open>
  C6 (as amended). In every normalized tree the root query node at index \<open>i\<close> has the id
  \<open>query-i\<close>, and the id of every child, at every depth and for query and collector nodes
  alike, is its parent's id, a hyphen and the child's index among its siblings. On the search
  tab the Rewrite node has the fixed id \<open>rewrite\<close> and the top-level collector at index
  \<open>i\<close> the id \<open>collector-i\<close>; no id in the subtrees of the query nodes equals an id in the
  subtrees of the synthetic nodes.
\<close>

theorem node_ids_follow_paths:
  "(\<forall>i < length (activeData tab props).
       p_id (processedQueries tab props ! i) = ''query-'' @ string_of_nat i)
 \<and> (\<forall>n \<in> set (nodes_of_list (processedQueries tab props)). child_ids_extend n)
 \<and> (activeData Search props \<noteq> [] \<longrightarrow>
      (rewrite_positive props \<longrightarrow>
         p_id (processedQueries Search props ! length (activeData Search props)) = ''rewrite'')
    \<and> (\<forall>i < length (collector_list props).
         p_id (processedQueries Search props
                 ! (length (activeData Search props) + (if rewrite_positive props then 1 else 0) + i))
           = ''collector-'' @ string_of_nat i)
    \<and> (\<forall>n \<in> set (nodes_of_list (take (length (activeData Search props)) (processedQueries Search props))).
        \<forall>m \<in> set (nodes_of_list (drop (length (activeData Search props)) (processedQueries Search props))).
          p_id n \<noteq> p_id m))"
proof (intro conjI allI impI ballI)
  fix i
  assume i: "i < length (activeData tab props)"
  have "processedQueries tab props ! i
          = transformQueries (totalTime tab props) (activeData tab props) 0 [] ! i"
    using i
    by (subst processedQueries_roots) (simp add: nth_append transformQueries_length)
  with i show "p_id (processedQueries tab props ! i) = ''query-'' @ string_of_nat i"
    by (simp add: transformQueries_nth transformQuery_id node_path_def)
next
  fix n
  assume n: "n \<in> set (nodes_of_list (processedQueries tab props))"
  have rw: "\<forall>m \<in> set (nodes_of_list (rewriteNodes T r)). child_ids_extend m" for T r
    by (auto simp add: rewriteNodes_def child_ids_extend_def split: option.splits)
  from n show "child_ids_extend n"
    using transformQuery_child_ids(2) transformCollector_child_ids(2) rw
    by (auto simp add: processedQueries_def Let_def nodes_of_list_append collectorNodes_def
          split: if_splits option.splits)
next
  assume ne: "activeData Search props \<noteq> []" and "rewrite_positive props"
  then show "p_id (processedQueries Search props ! length (activeData Search props)) = ''rewrite''"
    by (auto simp add: processedQueries_search nth_append transformQueries_length
          rewriteNodes_def rewrite_positive_def split: option.splits)
next
  fix i
  assume ne: "activeData Search props \<noteq> []" and i: "i < length (collector_list props)"
  then show "p_id (processedQueries Search props
                 ! (length (activeData Search props) + (if rewrite_positive props then 1 else 0) + i))
           = ''collector-'' @ string_of_nat i"
    by (simp add: processedQueries_search nth_append transformQueries_length rewriteNodes_length
          transformCollectors_nth transformCollector_id node_path_def)
next
  fix n m
  assume ne: "activeData Search props \<noteq> []"
    and n: "n \<in> set (nodes_of_list (take (length (activeData Search props)) (processedQueries Search props)))"
    and m: "m \<in> set (nodes_of_list (drop (length (activeData Search props)) (processedQueries Search props)))"
  from ne n have "hd (p_id n) = CHR ''q''"
    using transformQuery_id_hd(2)
    by (simp add: processedQueries_search transformQueries_length)
  moreover from ne m have "hd (p_id m) = CHR ''r'' \<or> hd (p_id m) = CHR ''c''"
    using transformCollector_id_hd(2) [of "[]"]
    by (auto simp add: processedQueries_search transformQueries_length nodes_of_list_append
          rewriteNodes_def split: option.splits if_splits)
  ultimately show "p_id n \<noteq> p_id m"
    by auto
qed

theorem node_ids_follow_paths_witness:
  "p_id (processedQueries Search example_props ! 0) = ''query-0''
   \<and> p_id (processedQueries Search example_props ! 1) = ''rewrite''
   \<and> p_id (processedQueries Search example_props ! 2) = ''collector-0''
   \<and> map p_id (nodes_of_list (processedQueries Search example_props))
       = [''query-0'', ''query-0-0'', ''rewrite'', ''collector-0'', ''collector-0-0'']
   \<and> list_all child_ids_extend (nodes_of_list (processedQueries Search example_props))"
proof -
  have a: "length (activeData Search example_props) = 1" "rewrite_positive example_props"
    "length (collector_list example_props) = 1" "activeData Search example_props \<noteq> []"
    by (simp_all add: example_props_def activeData_def rewrite_positive_def collector_list_def)
  have z: "string_of_nat 0 = ''0''"
    by (simp add: string_of_nat.simps digit_char_def)
  have ids: "map p_id (nodes_of_list (processedQueries Search example_props))
       = [''query-0'', ''query-0-0'', ''rewrite'', ''collector-0'', ''collector-0-0'']"
    by (simp add: example_props_def normalizer_eval)
  show ?thesis
    using node_ids_follow_paths [of Search example_props] a z ids
    by (simp add: list_all_iff numeral_2_eq_2)
qed

text \<open>
  C6 as the specification states it fails: the id of the first root query node is
  \<open>query-0\<close>, not the plain index \<open>0\<close>.
\<close>

theorem root_query_id_counterexample:
  "p_id (processedQueries Search example_props ! 0) = ''query-0''
   \<and> p_id (processedQueries Search example_props ! 0) \<noteq> ''0''"
  by (simp add: example_props_def normalizer_eval)


section \<open>Properties of the threshold classifier\<close>



section \<open>Properties of the breakdown rows\<close>

lemma endsWith_append: "endsWith (key @ suffix) suffix"
  by (simp add: endsWith_def)

lemma or_zero_map_of: "or_zero (map_of breakdown (key @ ''_count'')) = paired_count breakdown key"
  by (auto simp add: paired_count_def split: option.splits)

text \<open>
  The loop, started anywhere in the key list: as long as every key in \<open>processedKeys\<close>
  either ends in \<open>_count\<close> or is not among the keys still to come, the test on
  \<open>processedKeys\<close> never decides, and the loop appends the rows of the included keys.
\<close>

lemma forEachKey_rows:
  assumes "distinct (map fst breakdown)"
  shows "distinct (map fst kvs) \<Longrightarrow> set kvs \<subseteq> set breakdown \<Longrightarrow>
         \<forall>p \<in> set processedKeys. endsWith p ''_count'' \<or> p \<notin> fst ` set kvs \<Longrightarrow>
         fst (forEachKey includeZeros breakdown (map fst kvs) (entries, processedKeys))
           = entries @ map (breakdown_row breakdown)
                         (filter (row_included includeZeros breakdown) kvs)"
proof (induction kvs arbitrary: entries processedKeys)
  case Nil
  then show ?case by simp
next
  case (Cons kv kvs)
  obtain key timeValue where kv: "kv = (key, timeValue)"
    by (cases kv)
  from Cons.prems kv have fresh: "key \<notin> fst ` set kvs" and dist: "distinct (map fst kvs)"
    and sub: "set kvs \<subseteq> set breakdown" and mem: "(key, timeValue) \<in> set breakdown"
    by auto
  from mem assms have look: "map_of breakdown key = Some timeValue"
    by simp
  from Cons.prems(3) kv have seen: "key \<in> set processedKeys \<Longrightarrow> endsWith key ''_count''"
    by auto
  from Cons.prems(3) have inv: "\<forall>p \<in> set processedKeys. endsWith p ''_count'' \<or> p \<notin> fst ` set kvs"
    by auto
  show ?case
  proof (cases "endsWith key ''_count''")
    case True
    then show ?thesis
      using Cons.IH [OF dist sub inv] kv
      by (simp add: row_included_def)
  next
    case False
    with seen have notseen: "key \<notin> set processedKeys"
      by blast
    show ?thesis
    proof (cases "includeZeros \<or> timeValue > 0 \<or> paired_count breakdown key > 0")
      case True
      have inv': "\<forall>p \<in> set ((key @ ''_count'') # key # processedKeys).
                    endsWith p ''_count'' \<or> p \<notin> fst ` set kvs"
        using inv fresh endsWith_append by auto
      show ?thesis
        using Cons.IH [OF dist sub inv'] kv False notseen look True
        by (simp add: row_included_def breakdown_row_def or_zero_map_of Let_def)
    next
      case nope: False
      show ?thesis
        using Cons.IH [OF dist sub inv] kv False notseen look nope
        by (simp add: row_included_def or_zero_map_of Let_def)
    qed
  qed
qed

lemma insert_sorted_insort:
  "insert_sorted (\<lambda>a b. timeNs b - timeNs a) x ys = insort_key (\<lambda>e. - timeNs e) x ys"
  by (induction ys) simp_all

lemma array_sort_sort_key:
  "array_sort (\<lambda>a b. timeNs b - timeNs a) xs = sort_key (\<lambda>e. - timeNs e) xs"
  by (induction xs) (simp_all add: array_sort_def insert_sorted_insort)

lemma sorted_descending:
  "sorted_wrt (\<lambda>a b. timeNs a \<ge> timeNs b) (sort_key (\<lambda>e. - timeNs e) xs)"
proof -
  have "sorted (map (\<lambda>e. - timeNs e) (sort_key (\<lambda>e. - timeNs e) xs))"
    by (rule sorted_sort_key)
  then show ?thesis
    by (simp add: sorted_wrt_map)
qed

lemma capitalize_words_length: "length (capitalize_words prev s) = length s"
  by (induction s arbitrary: prev) simp_all

lemma capitalize_words_nth:
  "i < length s \<Longrightarrow>
   capitalize_words prev s ! i =
     (if is_word_char (s ! i) \<and> \<not> (if i = 0 then prev else is_word_char (s ! (i - 1)))
      then toUpperCase (s ! i) else s ! i)"
proof (induction s arbitrary: prev i)
  case Nil
  then show ?case by simp
next
  case (Cons c cs)
  show ?case
  proof (cases i)
    case 0
    then show ?thesis by simp
  next
    case (Suc j)
    with Cons.prems have "j < length cs" by simp
    from Cons.IH [OF this, of "is_word_char c"] Suc show ?thesis
      by (cases j) simp_all
  qed
qed

lemma space_not_word: "\<not> is_word_char CHR '' ''"
  by (simp add: is_word_char_def)

lemma humanize_length: "length (humanize key) = length key"
  by (simp add: humanize_def replace_underscores_def capitalize_words_length)

lemma humanize_nth:
  assumes "i < length key"
  shows "humanize key ! i =
     (if key ! i = CHR ''_'' then CHR '' ''
      else if is_word_char (key ! i)
              \<and> (i = 0 \<or> key ! (i - 1) = CHR ''_'' \<or> \<not> is_word_char (key ! (i - 1)))
           then toUpperCase (key ! i)
           else key ! i)"
  using assms
  by (auto simp add: humanize_def replace_underscores_def capitalize_words_nth space_not_word)

text \<open>
  C8. For a query node whose breakdown is a map of numbers (an object, so its keys are
  distinct), the extraction returns one row for each key that does not end in \<open>_count\<close> and
  that the mode includes: every such key in raw mode, those with a positive time or a positive
  count in filtered mode. A key already consumed is never one of them, since only \<open>_count\<close>
  keys and keys already visited are consumed. The row pairs the key's time with the value of
  its \<open>_count\<close> sibling, 0 when absent, and carries the humanized label: each underscore
  replaced by a space, and each letter that starts a word (at the beginning, or after an
  underscore or another non-word character) in upper case. The rows come sorted by time,
  largest first, rows of equal time in the order of their keys.
\<close>

theorem getBreakdownEntries_rows:
  assumes "q_breakdown q = Some breakdown" and "distinct (map fst breakdown)"
  shows "getBreakdownEntries raw (Some q)
           = sort_key (\<lambda>e. - timeNs e)
               (map (breakdown_row breakdown) (filter (row_included raw breakdown) breakdown))
       \<and> sorted_wrt (\<lambda>a b. timeNs a \<ge> timeNs b) (getBreakdownEntries raw (Some q))
       \<and> (\<forall>key. length (humanize key) = length key
            \<and> (\<forall>i < length key.
                 humanize key ! i =
                   (if key ! i = CHR ''_'' then CHR '' ''
                    else if is_word_char (key ! i)
                            \<and> (i = 0 \<or> key ! (i - 1) = CHR ''_''
                                \<or> \<not> is_word_char (key ! (i - 1)))
                         then toUpperCase (key ! i)
                         else key ! i)))"
proof -
  have rows: "fst (forEachKey raw breakdown (map fst breakdown) ([], []))
                = map (breakdown_row breakdown) (filter (row_included raw breakdown) breakdown)"
    using forEachKey_rows [OF assms(2), of breakdown "[]" raw "[]"] assms(2) by simp
  have eq: "getBreakdownEntries raw (Some q)
           = sort_key (\<lambda>e. - timeNs e)
               (map (breakdown_row breakdown) (filter (row_included raw breakdown) breakdown))"
    using assms(1) by (simp add: getBreakdownEntries_def rows array_sort_sort_key)
  show ?thesis
    using eq sorted_descending humanize_length humanize_nth by simp
qed

theorem getBreakdownEntries_rows_witness:
  "getBreakdownEntries False (Some example_query)
     = [\<lparr>operation = ''Match'', timeNs = 800000, count = 1\<rparr>,
        \<lparr>operation = ''Set Min Competitive Score'', timeNs = 120000, count = 0\<rparr>,
        \<lparr>operation = ''Build Scorer'', timeNs = 90, count = 0\<rparr>]
   \<and> getBreakdownEntries True (Some example_query)
     = [\<lparr>operation = ''Match'', timeNs = 800000, count = 1\<rparr>,
        \<lparr>operation = ''Set Min Competitive Score'', timeNs = 120000, count = 0\<rparr>,
        \<lparr>operation = ''Build Scorer'', timeNs = 90, count = 0\<rparr>,
        \<lparr>operation = ''Next Doc'', timeNs = 0, count = 0\<rparr>]"
proof -
  have b: "q_breakdown example_query
             = Some [(''match'', 800000), (''match_count'', 1), (''build_scorer'', 90),
                     (''next_doc'', 0), (''next_doc_count'', 0),
                     (''set_min_competitive_score'', 120000)]"
    by (simp add: example_query_def)
  have d: "distinct (map fst [(''match'', 800000::rat), (''match_count'', 1), (''build_scorer'', 90),
                     (''next_doc'', 0), (''next_doc_count'', 0),
                     (''set_min_competitive_score'', 120000)])"
    by simp
  show ?thesis
    using getBreakdownEntries_rows [OF b d, of False] getBreakdownEntries_rows [OF b d, of True]
    by (simp add: breakdown_row_def row_included_def paired_count_def endsWith_def humanize_def
          replace_underscores_def is_word_char_def toUpperCase_def)
qed

section \<open>Round trip through serialization\<close>










end
